theory Spec2Isabelle
  imports Main "HOL-Library.Word"
begin

unbundle bit_operations_syntax

section \<open>Severities and the label table (log.go, lines 14-36 and 90-101)\<close>

text \<open>
  \<^verbatim>\<open>type LogSeverity uint16\<close>: a 16-bit unsigned machine integer. Division is the
  truncating unsigned division of Go, subtraction wraps around.
\<close>

type_synonym LogSeverity = "16 word"

definition Fatal :: LogSeverity where "Fatal = 10"
definition Error :: LogSeverity where "Error = 20"
definition Warning :: LogSeverity where "Warning = 30"
definition Information :: LogSeverity where "Information = 40"
definition Debug :: LogSeverity where "Debug = 50"
definition Verbose :: LogSeverity where "Verbose = 60"

text \<open>\<^verbatim>\<open>type LogType byte\<close> with the two constants \<^verbatim>\<open>File\<close> and \<^verbatim>\<open>Screen\<close>.\<close>

datatype LogType = File | Screen

text \<open>
  A run-time panic of Go. The only one this package can raise itself is the slice index
  out of range of \<^verbatim>\<open>getLogTypeString\<close>; it carries the index and the length.
\<close>

datatype panic = index_out_of_range nat nat

definition logStrings :: "string list" where
  "logStrings =
     [''FATAL  '',
      ''ERROR  '',
      ''WARNING'',
      ''INFO   '',
      ''DEBUG  '',
      ''VERBOSE'']"

text \<open>
  \<^verbatim>\<open>return logStrings[severity/10-1]\<close>. The index expression has type uint16, so
  \<^verbatim>\<open>severity/10-1\<close> wraps to 65535 when \<^verbatim>\<open>severity < 10\<close>. An index outside the slice is
  a panic, which the model returns on the left.
\<close>

definition getLogTypeString :: "LogSeverity \<Rightarrow> panic + string" where
  "getLogTypeString severity =
     (let i = unat (severity div 10 - 1) in
      if i < length logStrings then Inr (logStrings ! i)
      else Inl (index_out_of_range i (length logStrings)))"

section \<open>The environment: clock, file system, writers\<close>

text \<open>
  The package reaches the operating system through \<^verbatim>\<open>os.Stat\<close>, \<^verbatim>\<open>os.MkdirAll\<close>,
  \<^verbatim>\<open>os.Create\<close>, \<^verbatim>\<open>os.Rename\<close>, \<^verbatim>\<open>time.Now\<close> and the \<^verbatim>\<open>io.Writer\<close> behind each
  \<^verbatim>\<open>log.Logger\<close>. The model passes an explicit world through every call.
\<close>

subsection \<open>Wall-clock time and its two renderings\<close>

record Time =
  year :: nat
  month :: nat
  day :: nat
  hour :: nat
  minute :: nat
  second :: nat
  micro :: nat

definition digit :: "nat \<Rightarrow> char" where
  "digit d = ''0123456789'' ! d"

text \<open>
  Fixed-width decimal rendering, as \<^verbatim>\<open>itoa\<close> of package log (and \<^verbatim>\<open>appendInt\<close> of
  package time) do it: at least \<open>wid\<close> digits, zero-padded on the left.
\<close>

function itoa :: "nat \<Rightarrow> nat \<Rightarrow> string" where
  "itoa i wid =
     (if 10 \<le> i \<or> 1 < wid then itoa (i div 10) (wid - 1) @ [digit (i mod 10)]
      else [digit i])"
  by pat_completeness auto
termination
  by (relation "measure (\<lambda>(i, wid). i + wid)") auto

text \<open>\<^verbatim>\<open>t.Format("20060102150405")\<close>: year, month, day, hour, minute, second.\<close>

definition Format_20060102150405 :: "Time \<Rightarrow> string" where
  "Format_20060102150405 t =
     itoa (year t) 4 @ itoa (month t) 2 @ itoa (day t) 2 @
     itoa (hour t) 2 @ itoa (minute t) 2 @ itoa (second t) 2"

subsection \<open>Errors\<close>

datatype errno = ENOENT | EACCES | EEXIST | EISDIR | ENOTDIR

fun errno_string :: "errno \<Rightarrow> string" where
  "errno_string ENOENT = ''no such file or directory''"
| "errno_string EACCES = ''permission denied''"
| "errno_string EEXIST = ''file exists''"
| "errno_string EISDIR = ''is a directory''"
| "errno_string ENOTDIR = ''not a directory''"

text \<open>
  Go's \<^verbatim>\<open>error\<close> values that occur here: \<^verbatim>\<open>*fs.PathError\<close> (operation, path, cause),
  \<^verbatim>\<open>*os.LinkError\<close> (operation, old, new, cause) and the plain message that
  \<^verbatim>\<open>fmt.Errorf\<close> builds.
\<close>

datatype error =
  PathError string string errno
| LinkError string string string errno
| errorString string

text \<open>The method \<^verbatim>\<open>err.Error()\<close>.\<close>

fun Error_string :: "error \<Rightarrow> string" where
  "Error_string (PathError op' p e) = op' @ '' '' @ p @ '': '' @ errno_string e"
| "Error_string (LinkError op' old new e) =
     op' @ '' '' @ old @ '' '' @ new @ '': '' @ errno_string e"
| "Error_string (errorString s) = s"

fun underlying :: "error \<Rightarrow> errno option" where
  "underlying (PathError _ _ e) = Some e"
| "underlying (LinkError _ _ _ e) = Some e"
| "underlying (errorString _) = None"

text \<open>\<^verbatim>\<open>os.IsNotExist(err)\<close>: the underlying cause is ENOENT.\<close>

definition IsNotExist :: "error \<Rightarrow> bool" where
  "IsNotExist err = (underlying err = Some ENOENT)"

subsection \<open>The world\<close>

datatype node = Dir | Reg string

datatype syscall = SysStat | SysMkdir | SysOpen | SysRename

text \<open>
  An \<^verbatim>\<open>io.Writer\<close> handed to \<^verbatim>\<open>log.New\<close>: \<^verbatim>\<open>os.Stdout\<close>, or the \<^verbatim>\<open>*os.File\<close> that
  \<^verbatim>\<open>os.Create\<close> returned, numbered in the order of opening.
\<close>

datatype writer = Stdout | FileHandle nat

text \<open>
  \<^item> \<open>fs\<close>: the names that exist, each a directory or a regular file with its content;
  \<^item> \<open>open_files\<close>: the name each open file handle was created under;
  \<^item> \<open>written\<close>: every \<^verbatim>\<open>Write\<close> call made on a writer, oldest first, with its bytes
    (\<^verbatim>\<open>log.Logger\<close> discards the result of the call, so the record of the call is all
    the program can observe);
  \<^item> \<open>now\<close>: the reading of the clock, the same for every \<^verbatim>\<open>time.Now()\<close> of one call;
  \<^item> \<open>faults\<close>: system calls that fail whatever the names say (permissions, a
    read-only medium); permission bits themselves are not modelled.
\<close>

record world =
  fs :: "string \<rightharpoonup> node"
  open_files :: "string list"
  written :: "(writer \<times> string) list"
  now :: Time
  faults :: "syscall \<Rightarrow> string \<Rightarrow> errno option"

definition os_Stat :: "string \<Rightarrow> world \<Rightarrow> error + node" where
  "os_Stat name w =
     (case faults w SysStat name of
        Some e \<Rightarrow> Inl (PathError ''stat'' name e)
      | None \<Rightarrow>
          (case fs w name of
             None \<Rightarrow> Inl (PathError ''stat'' name ENOENT)
           | Some n \<Rightarrow> Inr n))"

text \<open>
  The directories \<^verbatim>\<open>os.MkdirAll\<close> visits, outermost first: every prefix of the path
  that ends before a slash or at the end of the path and does not itself end in a slash.
  Each one that is missing is made; one that is a regular file stops the call with
  ENOTDIR. The permission argument (\<^verbatim>\<open>os.ModeDir|os.ModePerm\<close> in this program) has no
  counterpart in the model.
\<close>

fun ancestors :: "string \<Rightarrow> string \<Rightarrow> string list" where
  "ancestors pre [] = (if pre = [] \<or> last pre = CHR ''/'' then [] else [pre])"
| "ancestors pre (c # cs) =
     (if c = CHR ''/'' \<and> pre \<noteq> [] \<and> last pre \<noteq> CHR ''/''
      then pre # ancestors (pre @ [c]) cs
      else ancestors (pre @ [c]) cs)"

fun mkdirs :: "string list \<Rightarrow> (string \<rightharpoonup> node) \<Rightarrow> (string \<times> errno) option \<times> (string \<rightharpoonup> node)" where
  "mkdirs [] m = (None, m)"
| "mkdirs (d # ds) m =
     (case m d of
        Some (Reg _) \<Rightarrow> (Some (d, ENOTDIR), m)
      | Some Dir \<Rightarrow> mkdirs ds m
      | None \<Rightarrow> mkdirs ds (m(d \<mapsto> Dir)))"

definition os_MkdirAll :: "string \<Rightarrow> world \<Rightarrow> error option \<times> world" where
  "os_MkdirAll name w =
     (case faults w SysMkdir name of
        Some e \<Rightarrow> (Some (PathError ''mkdir'' name e), w)
      | None \<Rightarrow>
          (case mkdirs (ancestors [] name) (fs w) of
             (None, m) \<Rightarrow> (None, w\<lparr>fs := m\<rparr>)
           | (Some (d, e), m) \<Rightarrow> (Some (PathError ''mkdir'' d e), w\<lparr>fs := m\<rparr>)))"

text \<open>
  \<^verbatim>\<open>os.Create\<close> opens with O_RDWR|O_CREATE|O_TRUNC: the name holds an empty regular file
  afterwards, whether or not it existed, and a new handle is returned. The names form a
  flat table: that the directory of a name is missing or closed to the caller is a
  fault of the call, not something read off the name.
\<close>

definition os_Create :: "string \<Rightarrow> world \<Rightarrow> (error + writer) \<times> world" where
  "os_Create name w =
     (case faults w SysOpen name of
        Some e \<Rightarrow> (Inl (PathError ''open'' name e), w)
      | None \<Rightarrow>
          (case fs w name of
             Some Dir \<Rightarrow> (Inl (PathError ''open'' name EISDIR), w)
           | _ \<Rightarrow>
               (Inr (FileHandle (length (open_files w))),
                w\<lparr>fs := (fs w)(name \<mapsto> Reg []),
                  open_files := open_files w @ [name]\<rparr>)))"

definition is_under :: "string \<Rightarrow> string \<Rightarrow> bool" where
  "is_under d q = (take (Suc (length d)) q = d @ ''/'')"

text \<open>Renaming a directory moves the names below it as well.\<close>

definition move_tree :: "string \<Rightarrow> string \<Rightarrow> (string \<rightharpoonup> node) \<Rightarrow> (string \<rightharpoonup> node)" where
  "move_tree old new m =
     (\<lambda>q. if q = new then m old
          else if is_under new q then m (old @ drop (length new) q)
          else if q = old \<or> is_under old q then None
          else m q)"

text \<open>
  \<^verbatim>\<open>os.Rename\<close>: an existing regular file at the new name is replaced; an existing
  directory there makes Go return EEXIST.
\<close>

definition os_Rename :: "string \<Rightarrow> string \<Rightarrow> world \<Rightarrow> error option \<times> world" where
  "os_Rename oldname newname w =
     (case faults w SysRename oldname of
        Some e \<Rightarrow> (Some (LinkError ''rename'' oldname newname e), w)
      | None \<Rightarrow>
          (case fs w oldname of
             None \<Rightarrow> (Some (LinkError ''rename'' oldname newname ENOENT), w)
           | Some (Reg c) \<Rightarrow>
               (case fs w newname of
                  Some Dir \<Rightarrow> (Some (LinkError ''rename'' oldname newname EEXIST), w)
                | _ \<Rightarrow> (None, w\<lparr>fs := (fs w)(oldname := None, newname \<mapsto> Reg c)\<rparr>))
           | Some Dir \<Rightarrow>
               (case fs w newname of
                  Some Dir \<Rightarrow> (Some (LinkError ''rename'' oldname newname EEXIST), w)
                | Some (Reg _) \<Rightarrow> (Some (LinkError ''rename'' oldname newname ENOTDIR), w)
                | None \<Rightarrow> (None, w\<lparr>fs := move_tree oldname newname (fs w)\<rparr>))))"

section \<open>Package log: the raw logger\<close>

definition Ldate :: nat where "Ldate = 1"
definition Ltime :: nat where "Ltime = 2"
definition Lmicroseconds :: nat where "Lmicroseconds = 4"

text \<open>\<^verbatim>\<open>const logFlags = log.Ldate | log.Ltime | log.Lmicroseconds\<close>\<close>

definition logFlags :: nat where
  "logFlags = Ldate OR Ltime OR Lmicroseconds"

text \<open>A \<^verbatim>\<open>*log.Logger\<close> as \<^verbatim>\<open>log.New(out, prefix, flag)\<close> builds it.\<close>

record raw_logger =
  out :: writer
  lprefix :: string
  flag :: nat

definition log_New :: "writer \<Rightarrow> string \<Rightarrow> nat \<Rightarrow> raw_logger" where
  "log_New wr pfx flg = \<lparr>out = wr, lprefix = pfx, flag = flg\<rparr>"

text \<open>
  The header of a line: the prefix, then date and time as the three flags ask for them.
  The other flags of package log (file names, UTC, message prefix) are never set by this
  program and are left out.
\<close>

definition formatHeader :: "string \<Rightarrow> nat \<Rightarrow> Time \<Rightarrow> string" where
  "formatHeader pfx flg t =
     pfx @
     (if flg AND (Ldate OR Ltime OR Lmicroseconds) \<noteq> 0 then
        (if flg AND Ldate \<noteq> 0
         then itoa (year t) 4 @ ''/'' @ itoa (month t) 2 @ ''/'' @ itoa (day t) 2 @ '' ''
         else []) @
        (if flg AND (Ltime OR Lmicroseconds) \<noteq> 0
         then itoa (hour t) 2 @ '':'' @ itoa (minute t) 2 @ '':'' @ itoa (second t) 2 @
              (if flg AND Lmicroseconds \<noteq> 0 then ''.'' @ itoa (micro t) 6 else []) @ '' ''
         else [])
      else [])"

text \<open>
  \<^verbatim>\<open>Logger.Output\<close> builds one buffer: header, message, and a newline unless the
  message ends in one.
\<close>

definition output_line :: "raw_logger \<Rightarrow> Time \<Rightarrow> string \<Rightarrow> string" where
  "output_line lg t s =
     formatHeader (lprefix lg) (flag lg) t @ s @
     (if s = [] \<or> last s \<noteq> CHR 0x0A then [CHR 0x0A] else [])"

text \<open>
  The buffer goes to the logger's writer in one \<^verbatim>\<open>Write\<close>. \<^verbatim>\<open>Logger.Printf\<close> formats its
  arguments and calls \<^verbatim>\<open>Output\<close>; it returns nothing, so a failed write is not seen by
  the caller.
\<close>

definition logger_Output :: "raw_logger \<Rightarrow> string \<Rightarrow> world \<Rightarrow> world" where
  "logger_Output lg s w =
     w\<lparr>written := written w @ [(out lg, output_line lg (now w) s)]\<rparr>"

section \<open>Package fmt: formatting\<close>

text \<open>\<^verbatim>\<open>fmt.Sprintf("%s %s", a, b)\<close> on two strings.\<close>

definition Sprintf_s_s :: "string \<Rightarrow> string \<Rightarrow> string" where
  "Sprintf_s_s a b = a @ '' '' @ b"

text \<open>
  A format string supplied by the caller can use every verb, flag, width and argument
  index of package fmt, on arguments of any type. The model keeps the loop of
  \<^verbatim>\<open>doPrintf\<close> and takes the rest as a parameter:
  \<^item> \<open>verb\<close> handles one directive. It gets the format after the percent sign, the
    arguments and the printer's state (the next argument, whether arguments were
    reordered); it returns the text, how many bytes of the format the directive took
    beyond the first one after the percent sign, and the new state;
  \<^item> \<open>start\<close> is the state at the beginning of a call;
  \<^item> \<open>extra\<close> is the report of unused arguments appended at the end.
\<close>

record ('a, 's) printer =
  verb :: "string \<Rightarrow> 'a list \<Rightarrow> 's \<Rightarrow> string \<times> nat \<times> 's"
  start :: "'s"
  extra :: "'a list \<Rightarrow> 's \<Rightarrow> string"

text \<open>
  Text up to the next percent sign is copied; a percent sign at the very end gives
  \<^verbatim>\<open>%!(NOVERB)\<close>; otherwise one directive is handled and the loop goes on behind it.
\<close>

function doPrintf :: "('a, 's) printer \<Rightarrow> string \<Rightarrow> 'a list \<Rightarrow> 's \<Rightarrow> string" where
  "doPrintf p format a st =
     (if dropWhile (\<lambda>c. c \<noteq> CHR ''%'') format = []
      then takeWhile (\<lambda>c. c \<noteq> CHR ''%'') format @ extra p a st
      else if tl (dropWhile (\<lambda>c. c \<noteq> CHR ''%'') format) = []
      then takeWhile (\<lambda>c. c \<noteq> CHR ''%'') format @ ''%!(NOVERB)'' @ extra p a st
      else takeWhile (\<lambda>c. c \<noteq> CHR ''%'') format @
           fst (verb p (tl (dropWhile (\<lambda>c. c \<noteq> CHR ''%'') format)) a st) @
           doPrintf p
             (drop (Suc (fst (snd (verb p (tl (dropWhile (\<lambda>c. c \<noteq> CHR ''%'') format)) a st))))
                (tl (dropWhile (\<lambda>c. c \<noteq> CHR ''%'') format)))
             a
             (snd (snd (verb p (tl (dropWhile (\<lambda>c. c \<noteq> CHR ''%'') format)) a st))))"
  by pat_completeness auto
termination
proof (relation "measure (\<lambda>(p, format, a, st). length format)", goal_cases)
  case 1
  show ?case by simp
next
  case (2 p format a st)
  have "length (dropWhile (\<lambda>c. c \<noteq> CHR ''%'') format) \<le> length format"
    by (rule length_dropWhile_le)
  with 2 show ?case
    by (cases "dropWhile (\<lambda>c. c \<noteq> CHR ''%'') format") auto
qed

definition Sprintf :: "('a, 's) printer \<Rightarrow> string \<Rightarrow> 'a list \<Rightarrow> string" where
  "Sprintf p format a = doPrintf p format a (start p)"

section \<open>The logger types (log.go, lines 48-88)\<close>

record Logger =
  rawLogger :: raw_logger
  severity :: LogSeverity
  logType :: LogType
  prefix :: string

record Log =
  loggers :: "Logger list"

text \<open>One element of \<^verbatim>\<open>LogConfig.Loggers\<close>.\<close>

record LogConfigItem =
  LogType :: string
  Severity :: LogSeverity
  Rotate :: bool
  Path :: string
  Prefix :: string

text \<open>A slice can be nil: \<open>None\<close>. The code tests for nil and for length 0.\<close>

record LogConfig =
  Loggers :: "LogConfigItem list option"

text \<open>\<^verbatim>\<open>func (l *Logger) logger() *log.Logger\<close>\<close>

definition logger :: "Logger \<Rightarrow> raw_logger" where
  "logger l = rawLogger l"

section \<open>Setting up the loggers (log.go, lines 107-177)\<close>

text \<open>
  \<^verbatim>\<open>createLogDir\<close>: the directory is made only when \<^verbatim>\<open>os.Stat\<close> says that it does not
  exist; after any other answer of \<^verbatim>\<open>os.Stat\<close> the function returns nil.
\<close>

definition createLogDir :: "string \<Rightarrow> world \<Rightarrow> error option \<times> world" where
  "createLogDir path w =
     (case os_Stat path w of
        Inl err \<Rightarrow> (if IsNotExist err then os_MkdirAll path w else (None, w))
      | Inr _ \<Rightarrow> (None, w))"

text \<open>
  \<^verbatim>\<open>createLogFile\<close>. The new name of a rotated file is
  \<^verbatim>\<open>fmt.Sprintf("%s.%s", logFilePath, time.Now().Format("20060102150405"))\<close>.
\<close>

definition createLogFile :: "string \<Rightarrow> bool \<Rightarrow> world \<Rightarrow> (error + writer) \<times> world" where
  "createLogFile logFilePath rotate' w =
     (case os_Stat logFilePath w of
        Inl err \<Rightarrow> (if IsNotExist err then os_Create logFilePath w else (Inl err, w))
      | Inr _ \<Rightarrow>
          (if rotate' then
             (case os_Rename logFilePath
                     (logFilePath @ ''.'' @ Format_20060102150405 (now w)) w of
                (Some err, w') \<Rightarrow> (Inl err, w')
              | (None, w') \<Rightarrow> os_Create logFilePath w')
           else os_Create logFilePath w))"

text \<open>
  Two functions of the standard library are parameters of the model, so that every
  theorem holds for the library's own: \<^verbatim>\<open>strings.ToLower\<close> (Unicode lower-casing) and
  \<^verbatim>\<open>path.Dir\<close> (the directory part of a path, cleaned).
\<close>

record stdlib =
  strings_ToLower :: "string \<Rightarrow> string"
  path_Dir :: "string \<Rightarrow> string"

text \<open>
  The first switch of \<^verbatim>\<open>SetupLoggers\<close> (lines 146-153): the kind of an entry, or the
  error \<^verbatim>\<open>fmt.Errorf("%s is invalid log type", item.LogType)\<close>.
\<close>

definition parseLogType :: "stdlib \<Rightarrow> string \<Rightarrow> error + LogType" where
  "parseLogType lib s =
     (if strings_ToLower lib s = ''file'' then Inr File
      else if strings_ToLower lib s = ''screen'' then Inr Screen
      else Inl (errorString (s @ '' is invalid log type'')))"

text \<open>
  The loop over the entries (lines 144-174). An entry that fails returns at once, with
  the loggers appended so far and the world as the failing step left it.
\<close>

fun SetupLoggers_loop ::
  "stdlib \<Rightarrow> LogConfigItem list \<Rightarrow> Log \<Rightarrow> world \<Rightarrow> error option \<times> Log \<times> world" where
  "SetupLoggers_loop lib [] l w = (None, l, w)"
| "SetupLoggers_loop lib (item # items) l w =
     (case parseLogType lib (LogType item) of
        Inl err \<Rightarrow> (Some err, l, w)
      | Inr Screen \<Rightarrow>
          SetupLoggers_loop lib items
            (l\<lparr>loggers := loggers l @
               [\<lparr>rawLogger = log_New Stdout (Prefix item) logFlags,
                 severity = Severity item, logType = Screen, prefix = []\<rparr>]\<rparr>)
            w
      | Inr File \<Rightarrow>
          (case createLogDir (path_Dir lib (Path item)) w of
             (Some err, w1) \<Rightarrow>
               (Some (errorString
                  (''failed to create logging directory: '' @ Error_string err)), l, w1)
           | (None, w1) \<Rightarrow>
               (case createLogFile (Path item) (Rotate item) w1 of
                  (Inl err, w2) \<Rightarrow>
                    (Some (errorString
                       (''failed to create log file: '' @ Error_string err)), l, w2)
                | (Inr f, w2) \<Rightarrow>
                    SetupLoggers_loop lib items
                      (l\<lparr>loggers := loggers l @
                         [\<lparr>rawLogger = log_New f (Prefix item) logFlags,
                           severity = Severity item, logType = File, prefix = []\<rparr>]\<rparr>)
                      w2)))"

definition SetupLoggers ::
  "stdlib \<Rightarrow> LogConfig \<Rightarrow> Log \<Rightarrow> world \<Rightarrow> error option \<times> Log \<times> world" where
  "SetupLoggers lib cfg l w =
     (case Loggers cfg of
        None \<Rightarrow> (Some (errorString ''unable to setup loggers''), l, w)
      | Some items \<Rightarrow>
          (if length items = 0 then (Some (errorString ''unable to setup loggers''), l, w)
           else SetupLoggers_loop lib items l w))"

section \<open>Writing messages (log.go, lines 179-258)\<close>

text \<open>
  The loop of \<^verbatim>\<open>writeMessage\<close>. The label is looked up inside the test, once for each
  logger that passes it, so a panic of the lookup stops the loop at the first such
  logger. The result is the panic, if any, and the world.
\<close>

fun writeMessage_loop ::
  "Logger list \<Rightarrow> LogSeverity \<Rightarrow> string \<Rightarrow> world \<Rightarrow> panic option \<times> world" where
  "writeMessage_loop [] sev msg w = (None, w)"
| "writeMessage_loop (lg # lgs) sev msg w =
     (if sev \<le> severity lg then
        (case getLogTypeString sev of
           Inl p \<Rightarrow> (Some p, w)
         | Inr s \<Rightarrow>
             writeMessage_loop lgs sev msg
               (logger_Output (logger lg) (Sprintf_s_s s msg) w))
      else writeMessage_loop lgs sev msg w)"

definition writeMessage ::
  "LogSeverity \<Rightarrow> string \<Rightarrow> Log \<Rightarrow> world \<Rightarrow> panic option \<times> world" where
  "writeMessage sev msg l w = writeMessage_loop (loggers l) sev msg w"

text \<open>
  \<^verbatim>\<open>writeMessagef\<close> passes \<^verbatim>\<open>fmt.Sprintf("%s %s", label, msg)\<close> to \<^verbatim>\<open>Printf\<close> as the
  format, with the caller's arguments.
\<close>

fun writeMessagef_loop ::
  "('a, 's) printer \<Rightarrow> Logger list \<Rightarrow> LogSeverity \<Rightarrow> string \<Rightarrow> 'a list \<Rightarrow> world \<Rightarrow>
   panic option \<times> world" where
  "writeMessagef_loop p [] sev msg args w = (None, w)"
| "writeMessagef_loop p (lg # lgs) sev msg args w =
     (if sev \<le> severity lg then
        (case getLogTypeString sev of
           Inl e \<Rightarrow> (Some e, w)
         | Inr s \<Rightarrow>
             writeMessagef_loop p lgs sev msg args
               (logger_Output (logger lg) (Sprintf p (Sprintf_s_s s msg) args) w))
      else writeMessagef_loop p lgs sev msg args w)"

definition writeMessagef ::
  "('a, 's) printer \<Rightarrow> LogSeverity \<Rightarrow> string \<Rightarrow> 'a list \<Rightarrow> Log \<Rightarrow> world \<Rightarrow>
   panic option \<times> world" where
  "writeMessagef p sev msg args l w = writeMessagef_loop p (loggers l) sev msg args w"

text \<open>The public methods of \<^verbatim>\<open>Log\<close>.\<close>

definition Log_Fatal :: "string \<Rightarrow> Log \<Rightarrow> world \<Rightarrow> panic option \<times> world" where
  "Log_Fatal msg l w = writeMessage Fatal msg l w"

definition Log_Fatalf ::
  "('a, 's) printer \<Rightarrow> string \<Rightarrow> 'a list \<Rightarrow> Log \<Rightarrow> world \<Rightarrow> panic option \<times> world" where
  "Log_Fatalf p msg args l w = writeMessagef p Fatal msg args l w"

definition Log_Error :: "string \<Rightarrow> Log \<Rightarrow> world \<Rightarrow> panic option \<times> world" where
  "Log_Error msg l w = writeMessage Error msg l w"

definition Log_Errorf ::
  "('a, 's) printer \<Rightarrow> string \<Rightarrow> 'a list \<Rightarrow> Log \<Rightarrow> world \<Rightarrow> panic option \<times> world" where
  "Log_Errorf p msg args l w = writeMessagef p Error msg args l w"

definition Log_Errore :: "error \<Rightarrow> Log \<Rightarrow> world \<Rightarrow> panic option \<times> world" where
  "Log_Errore err l w = Log_Error (Error_string err) l w"

definition Log_Warning :: "string \<Rightarrow> Log \<Rightarrow> world \<Rightarrow> panic option \<times> world" where
  "Log_Warning msg l w = writeMessage Warning msg l w"

definition Log_Warningf ::
  "('a, 's) printer \<Rightarrow> string \<Rightarrow> 'a list \<Rightarrow> Log \<Rightarrow> world \<Rightarrow> panic option \<times> world" where
  "Log_Warningf p msg args l w = writeMessagef p Warning msg args l w"

definition Log_Info :: "string \<Rightarrow> Log \<Rightarrow> world \<Rightarrow> panic option \<times> world" where
  "Log_Info msg l w = writeMessage Information msg l w"

definition Log_Infof ::
  "('a, 's) printer \<Rightarrow> string \<Rightarrow> 'a list \<Rightarrow> Log \<Rightarrow> world \<Rightarrow> panic option \<times> world" where
  "Log_Infof p msg args l w = writeMessagef p Information msg args l w"

definition Log_Debug :: "string \<Rightarrow> Log \<Rightarrow> world \<Rightarrow> panic option \<times> world" where
  "Log_Debug msg l w = writeMessage Debug msg l w"

definition Log_Debugf ::
  "('a, 's) printer \<Rightarrow> string \<Rightarrow> 'a list \<Rightarrow> Log \<Rightarrow> world \<Rightarrow> panic option \<times> world" where
  "Log_Debugf p msg args l w = writeMessagef p Debug msg args l w"

definition Log_Verbose :: "string \<Rightarrow> Log \<Rightarrow> world \<Rightarrow> panic option \<times> world" where
  "Log_Verbose msg l w = writeMessage Verbose msg l w"

definition Log_Verbosef ::
  "('a, 's) printer \<Rightarrow> string \<Rightarrow> 'a list \<Rightarrow> Log \<Rightarrow> world \<Rightarrow> panic option \<times> world" where
  "Log_Verbosef p msg args l w = writeMessagef p Verbose msg args l w"

section \<open>Instances used in the examples\<close>

text \<open>
  An instance of the two library functions, right on ASCII names and on slash-separated
  paths that are already clean.
\<close>

definition ascii_ToLower :: "string \<Rightarrow> string" where
  "ascii_ToLower s =
     map (\<lambda>c. case map_of (zip ''ABCDEFGHIJKLMNOPQRSTUVWXYZ''
                                ''abcdefghijklmnopqrstuvwxyz'') c of
                Some d \<Rightarrow> d
              | None \<Rightarrow> c) s"

definition clean_Dir :: "string \<Rightarrow> string" where
  "clean_Dir p =
     (let d = rev (dropWhile (\<lambda>c. c \<noteq> CHR ''/'') (rev p)) in
      if d = [] then ''.'' else if butlast d = [] then ''/'' else butlast d)"

definition ascii_lib :: stdlib where
  "ascii_lib = \<lparr>strings_ToLower = ascii_ToLower, path_Dir = clean_Dir\<rparr>"

text \<open>
  An instance of the printer: strings and integers as arguments, the verbs \<open>v\<close>, \<open>s\<close>
  and \<open>d\<close> without flags, and the doubled percent sign. Any other verb character is
  reported as a bad verb, as package fmt reports one; flags, widths and argument
  indexes are outside this instance.
\<close>

datatype arg = StrArg string | IntArg int

definition show_int :: "int \<Rightarrow> string" where
  "show_int i = (if i < 0 then ''-'' @ itoa (nat (- i)) 1 else itoa (nat i) 1)"

fun type_value :: "arg \<Rightarrow> string" where
  "type_value (StrArg s) = ''string='' @ s"
| "type_value (IntArg i) = ''int='' @ show_int i"

fun print_arg :: "char \<Rightarrow> arg \<Rightarrow> string" where
  "print_arg c (StrArg s) =
     (if c = CHR ''v'' \<or> c = CHR ''s'' then s
      else ''%!'' @ [c] @ ''('' @ type_value (StrArg s) @ '')'')"
| "print_arg c (IntArg i) =
     (if c = CHR ''v'' \<or> c = CHR ''d'' then show_int i
      else ''%!'' @ [c] @ ''('' @ type_value (IntArg i) @ '')'')"

fun join_args :: "string list \<Rightarrow> string" where
  "join_args [] = []"
| "join_args [x] = x"
| "join_args (x # y # ys) = x @ '', '' @ join_args (y # ys)"

definition basic_printer :: "(arg, nat) printer" where
  "basic_printer =
     \<lparr>verb = (\<lambda>f a n.
         if hd f = CHR ''%'' then (''%'', 0, n)
         else if n < length a then (print_arg (hd f) (a ! n), 0, Suc n)
         else (''%!'' @ [hd f] @ ''(MISSING)'', 0, n)),
      start = 0,
      extra = (\<lambda>a n.
         if n < length a then ''%!(EXTRA '' @ join_args (map type_value (drop n a)) @ '')''
         else [])\<rparr>"

text \<open>A moment of time and a small world: one directory, one old log file in it.\<close>

definition noon :: Time where
  "noon = \<lparr>year = 2026, month = 11, day = 1, hour = 12, minute = 30, second = 45,
            micro = 123456\<rparr>"

definition world0 :: world where
  "world0 =
     \<lparr>fs = [''/var/log'' \<mapsto> Dir, ''/var/log/app.log'' \<mapsto> Reg ''old''],
      open_files = [], written = [], now = noon, faults = (\<lambda>_ _. None)\<rparr>"

definition screen_logger :: "string \<Rightarrow> LogSeverity \<Rightarrow> Logger" where
  "screen_logger pfx sev =
     \<lparr>rawLogger = log_New Stdout pfx logFlags, severity = sev, logType = Screen,
      prefix = []\<rparr>"

text \<open>The same world, where \<^verbatim>\<open>os.Stat\<close> on the directory is refused.\<close>

definition world_denied :: world where
  "world_denied =
     world0\<lparr>faults := (\<lambda>c p. if c = SysStat \<and> p = ''/var/log'' then Some EACCES else None)\<rparr>"

text \<open>The same world, where every \<^verbatim>\<open>os.Rename\<close> is refused.\<close>

definition world_norename :: world where
  "world_norename =
     world0\<lparr>faults := (\<lambda>c p. if c = SysRename then Some EACCES else None)\<rparr>"

text \<open>Three configuration entries: a screen logger, a file logger, an unknown kind.\<close>

definition screen_item :: LogConfigItem where
  "screen_item =
     \<lparr>LogType = ''Screen'', Severity = Verbose, Rotate = False, Path = [],
      Prefix = ''app:''\<rparr>"

definition file_item :: "bool \<Rightarrow> LogConfigItem" where
  "file_item r =
     \<lparr>LogType = ''FILE'', Severity = Warning, Rotate = r, Path = ''/var/log/app.log'',
      Prefix = []\<rparr>"

definition socket_item :: LogConfigItem where
  "socket_item =
     \<lparr>LogType = ''socket'', Severity = Debug, Rotate = False, Path = ''/var/log/s.log'',
      Prefix = []\<rparr>"

section \<open>The specification's rendering of a line\<close>

text \<open>
  The specification describes the label as the upper-case name of the severity padded
  with trailing spaces to 7 characters, and the line as the label, one space and the
  message. These definitions follow its words; the theorems below compare them with
  \<^verbatim>\<open>logStrings\<close> and \<^verbatim>\<open>writeMessage\<close>.
\<close>

definition spec_label :: "string \<Rightarrow> string" where
  "spec_label name = name @ replicate (7 - length name) (CHR '' '')"

definition spec_line :: "string \<Rightarrow> string \<Rightarrow> string" where
  "spec_line name msg = spec_label name @ '' '' @ msg"

definition severity_names :: "(LogSeverity \<times> string) list" where
  "severity_names =
     [(Fatal, ''FATAL''), (Error, ''ERROR''), (Warning, ''WARNING''),
      (Information, ''INFO''), (Debug, ''DEBUG''), (Verbose, ''VERBOSE'')]"

section \<open>Properties of the label table\<close>

declare itoa.simps [simp del]
declare doPrintf.simps [simp del]

lemma index_unat:
  "unat (s div 10 - 1 :: 16 word) = (if unat s < 10 then 65535 else unat s div 10 - 1)"
proof (cases "unat s < 10")
  case True
  then have "unat (s div 10) = 0" by (simp add: unat_div)
  then have "s div 10 = 0" by (simp add: unat_eq_0)
  then show ?thesis using True by (simp add: unsigned_minus_1_eq_mask mask_eq_exp_minus_1)
next
  case False
  then have "unat (s div 10) \<noteq> 0" by (simp add: unat_div)
  then have "s div 10 \<noteq> 0" by (simp add: unat_eq_0)
  then have "unat (s div 10 - 1) = unat (s div 10) - 1" by (rule unat_minus_one)
  then show ?thesis using False by (simp add: unat_div)
qed

lemma index_in_bounds:
  "unat (s div 10 - 1 :: 16 word) < 6 \<longleftrightarrow> 10 \<le> s \<and> s \<le> 69"
  by (simp add: index_unat word_le_nat_alt) arith

lemma length_logStrings: "length logStrings = 6"
  by (simp add: logStrings_def)

lemma getLogTypeString_Inr_iff:
  "(\<exists>s. getLogTypeString sev = Inr s) \<longleftrightarrow> 10 \<le> sev \<and> sev \<le> 69"
  using index_in_bounds [of sev]
  by (auto simp add: getLogTypeString_def Let_def length_logStrings)

lemma getLogTypeString_consts:
  "getLogTypeString Fatal = Inr ''FATAL  ''"
  "getLogTypeString Error = Inr ''ERROR  ''"
  "getLogTypeString Warning = Inr ''WARNING''"
  "getLogTypeString Information = Inr ''INFO   ''"
  "getLogTypeString Debug = Inr ''DEBUG  ''"
  "getLogTypeString Verbose = Inr ''VERBOSE''"
  by (simp_all add: getLogTypeString_def logStrings_def Fatal_def Error_def Warning_def
      Information_def Debug_def Verbose_def)

lemma label_in_table:
  assumes "getLogTypeString sev = Inr s"
  shows "s \<in> set logStrings"
  using assms
  by (auto simp add: getLogTypeString_def Let_def split: if_splits)

lemma label_no_percent:
  assumes "getLogTypeString sev = Inr s"
  shows "CHR ''%'' \<notin> set s"
  using label_in_table [OF assms] by (auto simp add: logStrings_def)

section \<open>Properties of the two write loops\<close>

lemma writeMessage_loop_Inr:
  assumes "getLogTypeString sev = Inr s"
  shows "writeMessage_loop lgs sev msg w =
    (None, foldl (\<lambda>w lg. logger_Output (logger lg) (Sprintf_s_s s msg) w) w
             (filter (\<lambda>lg. sev \<le> severity lg) lgs))"
  using assms by (induction lgs arbitrary: w) simp_all

lemma writeMessagef_loop_Inr:
  assumes "getLogTypeString sev = Inr s"
  shows "writeMessagef_loop p lgs sev msg args w =
    (None, foldl (\<lambda>w lg. logger_Output (logger lg) (Sprintf p (Sprintf_s_s s msg) args) w) w
             (filter (\<lambda>lg. sev \<le> severity lg) lgs))"
  using assms by (induction lgs arbitrary: w) simp_all

lemma writeMessage_loop_none:
  "filter (\<lambda>lg. sev \<le> severity lg) lgs = [] \<Longrightarrow> writeMessage_loop lgs sev msg w = (None, w)"
  by (induction lgs) (simp_all split: if_splits)

lemma writeMessagef_loop_none:
  "filter (\<lambda>lg. sev \<le> severity lg) lgs = [] \<Longrightarrow>
   writeMessagef_loop p lgs sev msg args w = (None, w)"
  by (induction lgs) (simp_all split: if_splits)

lemma foldl_logger_Output:
  "foldl (\<lambda>w lg. logger_Output (logger lg) s w) w lgs =
   w\<lparr>written := written w @
      map (\<lambda>lg. (out (rawLogger lg), output_line (rawLogger lg) (now w) s)) lgs\<rparr>"
proof (induction lgs arbitrary: w)
  case Nil
  show ?case by simp
next
  case (Cons lg lgs)
  show ?case
    by (simp add: Cons.IH) (simp add: logger_Output_def logger_def)
qed

lemma map_filter_concat:
  "map f (filter P xs) = concat (map (\<lambda>x. if P x then [f x] else []) xs)"
  by (induction xs) simp_all

section \<open>Properties of the format loop\<close>

lemma doPrintf_literal:
  assumes "CHR ''%'' \<notin> set pre"
  shows "doPrintf p (pre @ format) a st = pre @ doPrintf p format a st"
proof -
  define T where "T = takeWhile (\<lambda>c. c \<noteq> CHR ''%'') format"
  define D where "D = dropWhile (\<lambda>c. c \<noteq> CHR ''%'') format"
  have tw: "takeWhile (\<lambda>c. c \<noteq> CHR ''%'') (pre @ format) = pre @ T"
    unfolding T_def using assms by (intro takeWhile_append2) auto
  have dw: "dropWhile (\<lambda>c. c \<noteq> CHR ''%'') (pre @ format) = D"
    unfolding D_def using assms by (intro dropWhile_append2) auto
  note L = doPrintf.simps [of p "pre @ format" a st, unfolded tw dw]
  note R = doPrintf.simps [of p format a st, folded T_def D_def]
  show ?thesis
  proof (cases "D = []")
    case True
    then show ?thesis by (simp add: L R)
  next
    case False
    then show ?thesis by (cases "tl D = []") (simp_all add: L R)
  qed
qed

lemma Sprintf_label:
  assumes "getLogTypeString sev = Inr s"
  shows "Sprintf p (Sprintf_s_s s msg) args = Sprintf_s_s s (Sprintf p msg args)"
proof -
  have "CHR ''%'' \<notin> set (s @ '' '')"
    using label_no_percent [OF assms] by simp
  then have "doPrintf p ((s @ '' '') @ msg) args (start p) =
             (s @ '' '') @ doPrintf p msg args (start p)"
    by (rule doPrintf_literal)
  then show ?thesis by (simp add: Sprintf_def Sprintf_s_s_def)
qed

section \<open>The claims about writing messages\<close>

text \<open>
  Claim C1. An emit of severity \<open>sev\<close> whose label lookup is in bounds (every public
  method passes such a severity) makes, for each logger of the sequence in order,
  exactly one write of the formatted line to that logger's writer when
  \<open>sev \<le> severity lg\<close>, and none otherwise; nothing else in the world changes and no
  panic is raised. The same holds for the formatted variant, with the formatted
  message. When no logger qualifies the message is dropped: the world is unchanged and
  there is no panic.
\<close>

theorem emit_threshold:
  "(getLogTypeString sev = Inr label \<longrightarrow>
      writeMessage sev msg l w =
        (None,
         w\<lparr>written := written w @
            concat (map (\<lambda>lg. if sev \<le> severity lg
                              then [(out (rawLogger lg),
                                     output_line (rawLogger lg) (now w) (label @ '' '' @ msg))]
                              else [])
                      (loggers l))\<rparr>) \<and>
      writeMessagef p sev msg args l w =
        (None,
         w\<lparr>written := written w @
            concat (map (\<lambda>lg. if sev \<le> severity lg
                              then [(out (rawLogger lg),
                                     output_line (rawLogger lg) (now w)
                                       (label @ '' '' @ Sprintf p msg args))]
                              else [])
                      (loggers l))\<rparr>)) \<and>
   (filter (\<lambda>lg. sev \<le> severity lg) (loggers l) = [] \<longrightarrow>
      writeMessage sev msg l w = (None, w) \<and>
      writeMessagef p sev msg args l w = (None, w))"
proof (intro conjI impI)
  assume lab: "getLogTypeString sev = Inr label"
  show "writeMessage sev msg l w =
        (None,
         w\<lparr>written := written w @
            concat (map (\<lambda>lg. if sev \<le> severity lg
                              then [(out (rawLogger lg),
                                     output_line (rawLogger lg) (now w) (label @ '' '' @ msg))]
                              else [])
                      (loggers l))\<rparr>)"
    by (simp add: writeMessage_def writeMessage_loop_Inr [OF lab] foldl_logger_Output
        map_filter_concat Sprintf_s_s_def cong: if_cong)
  show "writeMessagef p sev msg args l w =
        (None,
         w\<lparr>written := written w @
            concat (map (\<lambda>lg. if sev \<le> severity lg
                              then [(out (rawLogger lg),
                                     output_line (rawLogger lg) (now w)
                                       (label @ '' '' @ Sprintf p msg args))]
                              else [])
                      (loggers l))\<rparr>)"
    by (simp add: writeMessagef_def writeMessagef_loop_Inr [OF lab] foldl_logger_Output
        map_filter_concat Sprintf_label [OF lab]) (simp add: Sprintf_s_s_def cong: if_cong)
next
  assume "filter (\<lambda>lg. sev \<le> severity lg) (loggers l) = []"
  then show "writeMessage sev msg l w = (None, w)"
    by (simp add: writeMessage_def writeMessage_loop_none)
next
  assume "filter (\<lambda>lg. sev \<le> severity lg) (loggers l) = []"
  then show "writeMessagef p sev msg args l w = (None, w)"
    by (simp add: writeMessagef_def writeMessagef_loop_none)
qed

lemma Warning_le: "Warning \<le> Verbose" "\<not> Warning \<le> Error"
  by (simp_all add: Warning_def Verbose_def Error_def)

theorem emit_threshold_witness:
  "getLogTypeString Warning = Inr ''WARNING'' \<and>
   writeMessage Warning ''disk low''
     \<lparr>loggers = [screen_logger ''a:'' Error, screen_logger ''b:'' Verbose]\<rparr> world0 =
   (None,
    world0\<lparr>written :=
      [(Stdout, ''b:2026/11/01 12:30:45.123456 WARNING disk low'' @ [CHR 0x0A])]\<rparr>) \<and>
   writeMessage Information ''started''
     \<lparr>loggers = [screen_logger ''a:'' Error, screen_logger ''c:'' Warning]\<rparr> world0 =
   (None, world0)"
proof -
  have lab: "getLogTypeString Warning = Inr ''WARNING''"
    by (rule getLogTypeString_consts)
  have none: "filter (\<lambda>lg. Information \<le> severity lg)
       (loggers \<lparr>loggers = [screen_logger ''a:'' Error, screen_logger ''c:'' Warning]\<rparr>) = []"
    by (simp add: screen_logger_def Information_def Error_def Warning_def)
  have line: "output_line (log_New Stdout ''b:'' logFlags) noon ''WARNING disk low'' =
      ''b:2026/11/01 12:30:45.123456 WARNING disk low'' @ [CHR 0x0A]"
    by (simp add: output_line_def log_New_def logFlags_def noon_def formatHeader_def
        Ldate_def Ltime_def Lmicroseconds_def itoa.simps digit_def)
  have w0: "written world0 = []" "now world0 = noon"
    by (simp_all add: world0_def)
  from emit_threshold [of Warning "''WARNING''" "''disk low''"
      "\<lparr>loggers = [screen_logger ''a:'' Error, screen_logger ''b:'' Verbose]\<rparr>" world0
      basic_printer "[]"]
    emit_threshold [of Information "''INFO   ''" "''started''"
      "\<lparr>loggers = [screen_logger ''a:'' Error, screen_logger ''c:'' Warning]\<rparr>" world0
      basic_printer "[]"]
  show ?thesis
    using lab none line by (simp add: screen_logger_def Warning_le w0 log_New_def)
qed

lemma label_is_spec_label:
  "(sev, name) \<in> set severity_names \<Longrightarrow> getLogTypeString sev = Inr (spec_label name)"
  by (auto simp add: severity_names_def spec_label_def getLogTypeString_consts eval_nat_numeral)

lemma spec_label_length:
  "(sev, name) \<in> set severity_names \<Longrightarrow> length (spec_label name) = 7"
  by (auto simp add: severity_names_def spec_label_def)

text \<open>
  Claim C7. For each of the six severities the label is the severity's upper-case name
  padded with trailing spaces to exactly 7 characters, and what \<^verbatim>\<open>writeMessage\<close> hands
  to the raw logger of every qualifying logger is that label, one space and the
  message.
\<close>

theorem line_format:
  "\<forall>(sev, name) \<in> set severity_names.
     length (spec_label name) = 7 \<and>
     getLogTypeString sev = Inr (spec_label name) \<and>
     writeMessage sev msg l w =
       (None,
        foldl (\<lambda>w lg. logger_Output (logger lg) (spec_line name msg) w) w
          (filter (\<lambda>lg. sev \<le> severity lg) (loggers l)))"
proof (clarify, intro conjI)
  fix sev name
  assume mem: "(sev, name) \<in> set severity_names"
  show "length (spec_label name) = 7"
    by (rule spec_label_length [OF mem])
  show lab: "getLogTypeString sev = Inr (spec_label name)"
    by (rule label_is_spec_label [OF mem])
  show "writeMessage sev msg l w =
       (None,
        foldl (\<lambda>w lg. logger_Output (logger lg) (spec_line name msg) w) w
          (filter (\<lambda>lg. sev \<le> severity lg) (loggers l)))"
    by (simp add: writeMessage_def writeMessage_loop_Inr [OF lab] Sprintf_s_s_def spec_line_def)
qed

theorem line_format_witness:
  "(Fatal, ''FATAL'') \<in> set severity_names \<and>
   spec_line ''FATAL'' ''boom'' = ''FATAL   boom'' \<and>
   writeMessage Fatal ''boom'' \<lparr>loggers = [screen_logger ''app:'' Verbose]\<rparr> world0 =
     (None, logger_Output (log_New Stdout ''app:'' logFlags) ''FATAL   boom'' world0)"
proof -
  have mem: "(Fatal, ''FATAL'') \<in> set severity_names"
    by (simp add: severity_names_def)
  have le: "Fatal \<le> Verbose"
    by (simp add: Fatal_def Verbose_def)
  have sl: "spec_line ''FATAL'' ''boom'' = ''FATAL   boom''"
    by (simp add: spec_line_def spec_label_def eval_nat_numeral)
  from line_format [of "''boom''" "\<lparr>loggers = [screen_logger ''app:'' Verbose]\<rparr>" world0] mem
  have "writeMessage Fatal ''boom'' \<lparr>loggers = [screen_logger ''app:'' Verbose]\<rparr> world0 =
       (None,
        foldl (\<lambda>w lg. logger_Output (logger lg) (spec_line ''FATAL'' ''boom'') w) world0
          (filter (\<lambda>lg. Fatal \<le> severity lg)
             (loggers \<lparr>loggers = [screen_logger ''app:'' Verbose]\<rparr>)))"
    by blast
  then show ?thesis
    using mem sl le by (simp add: screen_logger_def logger_def)
qed

text \<open>
  Claim C8. For every printer, severity, template, argument list, logger sequence and
  world, the formatted variant does exactly what the plain variant does on the template
  formatted beforehand: the label in front of the template is copied unchanged and
  takes no argument.
\<close>

theorem writeMessagef_refines:
  "writeMessagef p sev msg args l w = writeMessage sev (Sprintf p msg args) l w"
proof (cases "getLogTypeString sev")
  case (Inl e)
  have "writeMessagef_loop p lgs sev msg args w =
        writeMessage_loop lgs sev (Sprintf p msg args) w" for lgs
    using Inl by (induction lgs arbitrary: w) simp_all
  then show ?thesis by (simp add: writeMessagef_def writeMessage_def)
next
  case (Inr s)
  show ?thesis
    by (simp add: writeMessagef_def writeMessage_def writeMessagef_loop_Inr [OF Inr]
        writeMessage_loop_Inr [OF Inr] Sprintf_label [OF Inr])
qed

lemma Sprintf_count: "Sprintf basic_printer ''count=%d'' [IntArg 5] = ''count=5''"
  by (simp add: Sprintf_def basic_printer_def doPrintf.simps show_int_def itoa.simps digit_def)

theorem writeMessagef_refines_witness:
  "writeMessagef basic_printer Information ''count=%d'' [IntArg 5]
     \<lparr>loggers = [screen_logger ''app:'' Information]\<rparr> world0 =
   (None,
    world0\<lparr>written :=
      [(Stdout, ''app:2026/11/01 12:30:45.123456 INFO    count=5'' @ [CHR 0x0A])]\<rparr>)"
proof -
  have line: "output_line (log_New Stdout ''app:'' logFlags) noon ''INFO    count=5'' =
      ''app:2026/11/01 12:30:45.123456 INFO    count=5'' @ [CHR 0x0A]"
    by (simp add: output_line_def log_New_def logFlags_def noon_def formatHeader_def
        Ldate_def Ltime_def Lmicroseconds_def itoa.simps digit_def)
  have w0: "written world0 = []" "now world0 = noon"
    by (simp_all add: world0_def)
  have "writeMessage Information ''count=5''
     \<lparr>loggers = [screen_logger ''app:'' Information]\<rparr> world0 =
   (None,
    world0\<lparr>written :=
      [(Stdout, ''app:2026/11/01 12:30:45.123456 INFO    count=5'' @ [CHR 0x0A])]\<rparr>)"
    using line
    by (simp add: writeMessage_def screen_logger_def getLogTypeString_consts logger_def
        logger_Output_def Sprintf_s_s_def w0 log_New_def)
  then show ?thesis
    using writeMessagef_refines [of basic_printer Information "''count=%d''" "[IntArg 5]"
        "\<lparr>loggers = [screen_logger ''app:'' Information]\<rparr>" world0]
    by (simp add: Sprintf_count)
qed

lemma writeMessage_no_panic:
  assumes "getLogTypeString sev = Inr s"
  shows "fst (writeMessage sev msg l w) = None"
  by (simp add: writeMessage_def writeMessage_loop_Inr [OF assms])

lemma writeMessagef_no_panic:
  assumes "getLogTypeString sev = Inr s"
  shows "fst (writeMessagef p sev msg args l w) = None"
  by (simp add: writeMessagef_def writeMessagef_loop_Inr [OF assms])

text \<open>
  Claim C9, as amended. The label lookup is in bounds exactly for the severities from 10
  to 69, and out of bounds (a panic) exactly for those below 10 or above 69, such as 0
  and 70. The six constants lie in the first range, so no public method panics on the
  lookup.
\<close>

theorem label_lookup_bounds:
  "((\<exists>s. getLogTypeString sev = Inr s) \<longleftrightarrow> 10 \<le> sev \<and> sev \<le> 69) \<and>
   ((\<exists>i n. getLogTypeString sev = Inl (index_out_of_range i n)) \<longleftrightarrow> sev < 10 \<or> 69 < sev) \<and>
   fst (Log_Fatal msg l w) = None \<and> fst (Log_Fatalf p msg args l w) = None \<and>
   fst (Log_Error msg l w) = None \<and> fst (Log_Errorf p msg args l w) = None \<and>
   fst (Log_Errore err l w) = None \<and>
   fst (Log_Warning msg l w) = None \<and> fst (Log_Warningf p msg args l w) = None \<and>
   fst (Log_Info msg l w) = None \<and> fst (Log_Infof p msg args l w) = None \<and>
   fst (Log_Debug msg l w) = None \<and> fst (Log_Debugf p msg args l w) = None \<and>
   fst (Log_Verbose msg l w) = None \<and> fst (Log_Verbosef p msg args l w) = None"
proof -
  have in_b: "(\<exists>s. getLogTypeString sev = Inr s) \<longleftrightarrow> 10 \<le> sev \<and> sev \<le> 69"
    by (rule getLogTypeString_Inr_iff)
  have "(\<exists>i n. getLogTypeString sev = Inl (index_out_of_range i n)) \<longleftrightarrow>
        \<not> (\<exists>s. getLogTypeString sev = Inr s)"
    by (auto simp add: getLogTypeString_def Let_def)
  then have out_b:
    "(\<exists>i n. getLogTypeString sev = Inl (index_out_of_range i n)) \<longleftrightarrow> sev < 10 \<or> 69 < sev"
    unfolding in_b by (auto simp add: not_le)
  show ?thesis
    unfolding Log_Fatal_def Log_Fatalf_def Log_Error_def Log_Errorf_def Log_Errore_def
      Log_Warning_def Log_Warningf_def Log_Info_def Log_Infof_def Log_Debug_def
      Log_Debugf_def Log_Verbose_def Log_Verbosef_def
    using in_b out_b
    by (simp only: writeMessage_no_panic [OF getLogTypeString_consts(1)]
        writeMessage_no_panic [OF getLogTypeString_consts(2)]
        writeMessage_no_panic [OF getLogTypeString_consts(3)]
        writeMessage_no_panic [OF getLogTypeString_consts(4)]
        writeMessage_no_panic [OF getLogTypeString_consts(5)]
        writeMessage_no_panic [OF getLogTypeString_consts(6)]
        writeMessagef_no_panic [OF getLogTypeString_consts(1)]
        writeMessagef_no_panic [OF getLogTypeString_consts(2)]
        writeMessagef_no_panic [OF getLogTypeString_consts(3)]
        writeMessagef_no_panic [OF getLogTypeString_consts(4)]
        writeMessagef_no_panic [OF getLogTypeString_consts(5)]
        writeMessagef_no_panic [OF getLogTypeString_consts(6)] simp_thms)
qed

theorem label_lookup_bounds_witness:
  "getLogTypeString 0 = Inl (index_out_of_range 65535 6) \<and>
   getLogTypeString 70 = Inl (index_out_of_range 6 6) \<and>
   (\<exists>s. getLogTypeString 69 = Inr s) \<and>
   fst (Log_Verbose ''boom'' \<lparr>loggers = [screen_logger ''app:'' Verbose]\<rparr> world0) = None"
proof -
  have "getLogTypeString 0 = Inl (index_out_of_range 65535 6)"
    by (simp add: getLogTypeString_def logStrings_def unsigned_minus_1_eq_mask
        mask_eq_exp_minus_1)
  moreover have "getLogTypeString 70 = Inl (index_out_of_range 6 6)"
    by (simp add: getLogTypeString_def logStrings_def)
  moreover have "(10::16 word) \<le> 69" by simp
  ultimately show ?thesis
    using label_lookup_bounds [of 69 "''boom''"
        "\<lparr>loggers = [screen_logger ''app:'' Verbose]\<rparr>" world0 basic_printer "[]"
        "errorString ''e''"]
    by simp
qed

text \<open>
  The claim as it was stated calls the lookup out of bounds for every severity other
  than the six constants. The severity 15 is none of them and its lookup succeeds.
\<close>

theorem label_lookup_counterexample:
  "15 \<notin> {Fatal, Error, Warning, Information, Debug, Verbose} \<and>
   getLogTypeString 15 = Inr ''FATAL  ''"
  by (simp add: getLogTypeString_def logStrings_def Fatal_def Error_def Warning_def
      Information_def Debug_def Verbose_def)

section \<open>Properties of the setup loop\<close>

lemma SetupLoggers_loop_append:
  "SetupLoggers_loop lib (xs @ ys) l w =
     (case SetupLoggers_loop lib xs l w of
        (None, l1, w1) \<Rightarrow> SetupLoggers_loop lib ys l1 w1
      | (Some e, l1, w1) \<Rightarrow> (Some e, l1, w1))"
  by (induction xs arbitrary: l w)
     (simp_all split: sum.splits LogType.splits prod.splits option.splits)


section \<open>The claims about setup\<close>

text \<open>
  Claim C4. When the list of loggers of the configuration is nil or empty,
  \<^verbatim>\<open>SetupLoggers\<close> returns an error (its text is "unable to setup loggers") and does
  nothing else: the sequence of loggers and the world, hence the files, are as before.
\<close>

theorem empty_config_fails:
  "Loggers cfg = None \<or> Loggers cfg = Some [] \<Longrightarrow>
   SetupLoggers lib cfg l w = (Some (errorString ''unable to setup loggers''), l, w)"
  by (auto simp add: SetupLoggers_def)

theorem empty_config_fails_witness:
  "SetupLoggers ascii_lib \<lparr>Loggers = None\<rparr> \<lparr>loggers = []\<rparr> world0 =
     (Some (errorString ''unable to setup loggers''), \<lparr>loggers = []\<rparr>, world0) \<and>
   SetupLoggers ascii_lib \<lparr>Loggers = Some []\<rparr> \<lparr>loggers = []\<rparr> world0 =
     (Some (errorString ''unable to setup loggers''), \<lparr>loggers = []\<rparr>, world0)"
  using empty_config_fails [of "\<lparr>Loggers = None\<rparr>" ascii_lib "\<lparr>loggers = []\<rparr>" world0]
    empty_config_fails [of "\<lparr>Loggers = Some []\<rparr>" ascii_lib "\<lparr>loggers = []\<rparr>" world0]
  by simp

text \<open>
  Claim C5. An entry whose kind, lower-cased, is neither "file" nor "screen" is refused
  with an error whose text starts with the kind exactly as the entry spells it; when the
  entries before it were set up, \<^verbatim>\<open>SetupLoggers\<close> returns this error and leaves the
  loggers and the world as those entries left them. A kind that lower-cases to "file"
  or to "screen" resolves to \<open>File\<close> or \<open>Screen\<close>.
\<close>

theorem invalid_log_type:
  "(strings_ToLower lib (LogType item) \<noteq> ''file'' \<and>
    strings_ToLower lib (LogType item) \<noteq> ''screen'' \<longrightarrow>
      parseLogType lib (LogType item) =
        Inl (errorString (LogType item @ '' is invalid log type'')) \<and>
      (SetupLoggers_loop lib pre l w = (None, l1, w1) \<longrightarrow>
         SetupLoggers lib \<lparr>Loggers = Some (pre @ item # post)\<rparr> l w =
           (Some (errorString (LogType item @ '' is invalid log type'')), l1, w1))) \<and>
   (strings_ToLower lib (LogType item) = ''file'' \<longrightarrow>
      parseLogType lib (LogType item) = Inr File) \<and>
   (strings_ToLower lib (LogType item) = ''screen'' \<longrightarrow>
      parseLogType lib (LogType item) = Inr Screen)"
  by (simp add: parseLogType_def SetupLoggers_def SetupLoggers_loop_append)

lemma parse_examples:
  "parseLogType ascii_lib ''Screen'' = Inr Screen"
  "parseLogType ascii_lib ''FILE'' = Inr File"
  "parseLogType ascii_lib ''socket'' = Inl (errorString ''socket is invalid log type'')"
  by (simp_all add: parseLogType_def ascii_lib_def ascii_ToLower_def)

lemma setup_screen_item:
  "SetupLoggers_loop ascii_lib [screen_item] \<lparr>loggers = []\<rparr> world0 =
     (None, \<lparr>loggers = [screen_logger ''app:'' Verbose]\<rparr>, world0)"
  by (simp add: screen_item_def parse_examples screen_logger_def)

theorem invalid_log_type_witness:
  "SetupLoggers ascii_lib \<lparr>Loggers = Some [screen_item, socket_item, file_item True]\<rparr>
     \<lparr>loggers = []\<rparr> world0 =
     (Some (errorString ''socket is invalid log type''),
      \<lparr>loggers = [screen_logger ''app:'' Verbose]\<rparr>, world0) \<and>
   parseLogType ascii_lib ''FILE'' = Inr File \<and>
   parseLogType ascii_lib ''Screen'' = Inr Screen"
proof -
  have low: "strings_ToLower ascii_lib (LogType socket_item) = ''socket''"
    by (simp add: ascii_lib_def ascii_ToLower_def socket_item_def)
  from invalid_log_type [of ascii_lib socket_item "[screen_item]" "\<lparr>loggers = []\<rparr>" world0
      "\<lparr>loggers = [screen_logger ''app:'' Verbose]\<rparr>" world0 "[file_item True]"]
  have "SetupLoggers ascii_lib
          \<lparr>Loggers = Some ([screen_item] @ socket_item # [file_item True])\<rparr>
          \<lparr>loggers = []\<rparr> world0 =
        (Some (errorString (LogType socket_item @ '' is invalid log type'')),
         \<lparr>loggers = [screen_logger ''app:'' Verbose]\<rparr>, world0)"
    using low setup_screen_item by simp
  then show ?thesis
    by (simp add: parse_examples socket_item_def)
qed

section \<open>What a failing entry leaves behind\<close>






lemma os_Rename_fails: "os_Rename a b w = (Some e, w') \<Longrightarrow> w' = w"
  by (auto simp add: os_Rename_def split: option.splits node.splits)



section \<open>The claims about failing steps of setup\<close>


lemma example_dir: "path_Dir ascii_lib ''/var/log/app.log'' = ''/var/log''"
  by (simp add: ascii_lib_def clean_Dir_def)





text \<open>
  Claim C10. When \<^verbatim>\<open>os.Stat\<close> on the log directory fails with an error other than
  "does not exist", \<^verbatim>\<open>createLogDir\<close> returns nil and leaves the world alone: it does not
  call \<^verbatim>\<open>os.MkdirAll\<close>. Setup of a file entry then goes on to \<^verbatim>\<open>createLogFile\<close> on the
  same world.
\<close>

theorem stat_error_ignored:
  assumes "os_Stat dir w = Inl err" and "\<not> IsNotExist err"
  shows "createLogDir dir w = (None, w) \<and>
         (strings_ToLower lib (LogType item) = ''file'' \<and> path_Dir lib (Path item) = dir \<longrightarrow>
            SetupLoggers_loop lib (item # items) l w =
              (case createLogFile (Path item) (Rotate item) w of
                 (Inl e, w2) \<Rightarrow>
                   (Some (errorString (''failed to create log file: '' @ Error_string e)), l, w2)
               | (Inr f, w2) \<Rightarrow>
                   SetupLoggers_loop lib items
                     (l\<lparr>loggers := loggers l @
                        [\<lparr>rawLogger = log_New f (Prefix item) logFlags,
                          severity = Severity item, logType = File, prefix = []\<rparr>]\<rparr>)
                     w2))"
proof -
  have dir: "createLogDir dir w = (None, w)"
    using assms by (simp add: createLogDir_def)
  then show ?thesis
    by (simp add: parseLogType_def)
qed

theorem stat_error_ignored_witness:
  "os_Stat ''/var/log'' world_denied = Inl (PathError ''stat'' ''/var/log'' EACCES) \<and>
   \<not> IsNotExist (PathError ''stat'' ''/var/log'' EACCES) \<and>
   createLogDir ''/var/log'' world_denied = (None, world_denied) \<and>
   SetupLoggers_loop ascii_lib [file_item False] \<lparr>loggers = []\<rparr> world_denied =
     (None,
      \<lparr>loggers = [\<lparr>rawLogger = log_New (FileHandle 0) [] logFlags, severity = Warning,
                   logType = File, prefix = []\<rparr>]\<rparr>,
      world_denied\<lparr>fs := (fs world_denied)(''/var/log/app.log'' \<mapsto> Reg []),
             open_files := [''/var/log/app.log'']\<rparr>)"
proof -
  have st: "os_Stat ''/var/log'' world_denied = Inl (PathError ''stat'' ''/var/log'' EACCES)"
    by (simp add: os_Stat_def world_denied_def)
  have ne: "\<not> IsNotExist (PathError ''stat'' ''/var/log'' EACCES)"
    by (simp add: IsNotExist_def)
  have low: "strings_ToLower ascii_lib (LogType (file_item False)) = ''file''"
    by (simp add: ascii_lib_def ascii_ToLower_def file_item_def)
  have pd: "path_Dir ascii_lib (Path (file_item False)) = ''/var/log''"
    by (simp add: file_item_def example_dir)
  have cf: "createLogFile ''/var/log/app.log'' False world_denied =
     (Inr (FileHandle 0),
      world_denied\<lparr>fs := (fs world_denied)(''/var/log/app.log'' \<mapsto> Reg []),
             open_files := [''/var/log/app.log'']\<rparr>)"
    by (simp add: createLogFile_def os_Stat_def os_Create_def world_denied_def world0_def)
  from stat_error_ignored [OF st ne, of ascii_lib "file_item False" "[]" "\<lparr>loggers = []\<rparr>"]
  show ?thesis
    using st ne low pd cf by (simp add: file_item_def)
qed

section \<open>Properties of the time stamp and of the file operations\<close>

lemma digit_is_digit: "d < 10 \<Longrightarrow> digit d \<in> set ''0123456789''"
  unfolding digit_def by (rule nth_mem) simp

lemma itoa_digits: "set (itoa i wid) \<subseteq> set ''0123456789''"
proof (induction i wid rule: itoa.induct)
  case (1 i wid)
  show ?case
  proof (cases "10 \<le> i \<or> 1 < wid")
    case True
    have "digit (i mod 10) \<in> set ''0123456789''"
      by (rule digit_is_digit) simp
    with 1 [OF True] True show ?thesis
      by (subst itoa.simps) simp
  next
    case False
    then have "digit i \<in> set ''0123456789''"
      by (intro digit_is_digit) simp
    with False show ?thesis
      by (subst itoa.simps) simp
  qed
qed

lemma itoa_length: "0 < wid \<Longrightarrow> i < 10 ^ wid \<Longrightarrow> length (itoa i wid) = wid"
proof (induction i wid rule: itoa.induct)
  case (1 i wid)
  show ?case
  proof (cases "10 \<le> i \<or> 1 < wid")
    case True
    with "1.prems" have w2: "1 < wid"
      by (cases "wid = 1") auto
    then obtain k where k: "wid = Suc k" "0 < k"
      by (cases wid) auto
    from "1.prems" k have "i div 10 < 10 ^ k"
      by (simp add: less_mult_imp_div_less mult.commute)
    with "1.IH" [OF True] k have "length (itoa (i div 10) (wid - 1)) = wid - 1"
      by simp
    with True k show ?thesis
      by (subst itoa.simps) simp
  next
    case False
    with "1.prems" have "wid = 1" by simp
    with False show ?thesis
      by (subst itoa.simps) simp
  qed
qed

lemma stamp_length:
  assumes "year t < 10000" "month t < 100" "day t < 100" "hour t < 100" "minute t < 100"
    "second t < 100"
  shows "length (Format_20060102150405 t) = 14"
  using assms by (simp add: Format_20060102150405_def itoa_length)

lemma stamp_digits: "set (Format_20060102150405 t) \<subseteq> set ''0123456789''"
  unfolding Format_20060102150405_def using itoa_digits by (simp only: set_append Un_subset_iff)

lemma os_Stat_Inr: "os_Stat p w = Inr n \<Longrightarrow> faults w SysStat p = None \<and> fs w p = Some n"
  by (auto simp add: os_Stat_def split: option.splits)



section \<open>The claims about creating the log file\<close>


lemma example_stat:
  "os_Stat ''/var/log/app.log'' world0 = Inr (Reg ''old'')"
  "faults world0 c q = None"
  "open_files world0 = []"
  by (simp_all add: os_Stat_def world0_def)


lemma upd_rotate:
  "b \<noteq> p \<Longrightarrow> m(p := None, b \<mapsto> x, p \<mapsto> y) = m(b \<mapsto> x, p \<mapsto> y)"
  by (auto simp add: fun_eq_iff)

text \<open>
  Claim C3. Let the path exist as a regular file with content \<open>c\<close>, and the rotate flag
  be on. The new name is the path, a dot and the time stamp, which has 14 characters,
  all digits, for a time of the calendar before the year 10000, and differs from the
  path. If the renaming fails, \<^verbatim>\<open>createLogFile\<close> returns that error, nothing is created,
  and setup of the entry fails with "failed to create log file: " and the error's text.
  If neither the renaming nor the creation fails, the content \<open>c\<close> is found under the
  new name, the path holds an empty file, no other name changes, and the file returned
  is a handle newly opened on the path.
\<close>

theorem rotation_renames:
  assumes "os_Stat p w = Inr (Reg c)"
  shows
   "(os_Rename p (p @ ''.'' @ Format_20060102150405 (now w)) w = (Some e, w') \<longrightarrow>
       createLogFile p True w = (Inl e, w) \<and> w' = w \<and>
       (strings_ToLower lib (LogType item) = ''file'' \<and> Path item = p \<and> Rotate item \<and>
        createLogDir (path_Dir lib p) w0 = (None, w) \<longrightarrow>
          SetupLoggers_loop lib (item # items) l w0 =
            (Some (errorString (''failed to create log file: '' @ Error_string e)), l, w))) \<and>
    (faults w SysRename p = None \<and>
     fs w (p @ ''.'' @ Format_20060102150405 (now w)) \<noteq> Some Dir \<and>
     faults w SysOpen p = None \<longrightarrow>
       createLogFile p True w =
         (Inr (FileHandle (length (open_files w))),
          w\<lparr>fs := (fs w)(p @ ''.'' @ Format_20060102150405 (now w) \<mapsto> Reg c, p \<mapsto> Reg []),
            open_files := open_files w @ [p]\<rparr>)) \<and>
    (year (now w) < 10000 \<and> month (now w) \<le> 12 \<and> day (now w) \<le> 31 \<and>
     hour (now w) < 24 \<and> minute (now w) < 60 \<and> second (now w) < 60 \<longrightarrow>
       length (Format_20060102150405 (now w)) = 14) \<and>
    (\<forall>ch \<in> set (Format_20060102150405 (now w)). ch \<in> set ''0123456789'') \<and>
    p @ ''.'' @ Format_20060102150405 (now w) \<noteq> p"
proof (intro conjI impI)
  assume r: "os_Rename p (p @ ''.'' @ Format_20060102150405 (now w)) w = (Some e, w')"
  from os_Rename_fails [OF r] show same: "w' = w" .
  from assms r same show f: "createLogFile p True w = (Inl e, w)"
    by (simp add: createLogFile_def)
  assume "strings_ToLower lib (LogType item) = ''file'' \<and> Path item = p \<and> Rotate item \<and>
        createLogDir (path_Dir lib p) w0 = (None, w)"
  with f show "SetupLoggers_loop lib (item # items) l w0 =
            (Some (errorString (''failed to create log file: '' @ Error_string e)), l, w)"
    by (simp add: parseLogType_def)
next
  assume a: "faults w SysRename p = None \<and>
     fs w (p @ ''.'' @ Format_20060102150405 (now w)) \<noteq> Some Dir \<and>
     faults w SysOpen p = None"
  from os_Stat_Inr [OF assms] have there: "fs w p = Some (Reg c)" by simp
  have ne: "p @ ''.'' @ Format_20060102150405 (now w) \<noteq> p" by simp
  from a there have
    "os_Rename p (p @ ''.'' @ Format_20060102150405 (now w)) w =
       (None, w\<lparr>fs := (fs w)(p := None, p @ ''.'' @ Format_20060102150405 (now w) \<mapsto> Reg c)\<rparr>)"
    by (auto simp add: os_Rename_def split: option.splits node.splits)
  with assms a show "createLogFile p True w =
         (Inr (FileHandle (length (open_files w))),
          w\<lparr>fs := (fs w)(p @ ''.'' @ Format_20060102150405 (now w) \<mapsto> Reg c, p \<mapsto> Reg []),
            open_files := open_files w @ [p]\<rparr>)"
    by (simp add: createLogFile_def os_Create_def upd_rotate [OF ne])
next
  assume "year (now w) < 10000 \<and> month (now w) \<le> 12 \<and> day (now w) \<le> 31 \<and>
     hour (now w) < 24 \<and> minute (now w) < 60 \<and> second (now w) < 60"
  then show "length (Format_20060102150405 (now w)) = 14"
    by (intro stamp_length) simp_all
next
  show "\<forall>ch \<in> set (Format_20060102150405 (now w)). ch \<in> set ''0123456789''"
    using stamp_digits [of "now w"] by blast
next
  show "p @ ''.'' @ Format_20060102150405 (now w) \<noteq> p" by simp
qed

lemma example_stamp: "Format_20060102150405 noon = ''20261101123045''"
  by (simp add: Format_20060102150405_def noon_def itoa.simps digit_def)

lemma example_norename:
  "os_Stat ''/var/log/app.log'' world_norename = Inr (Reg ''old'')"
  "now world_norename = noon"
  "os_Rename ''/var/log/app.log'' ''/var/log/app.log.20261101123045'' world_norename =
     (Some (LinkError ''rename'' ''/var/log/app.log'' ''/var/log/app.log.20261101123045''
        EACCES), world_norename)"
  by (simp_all add: os_Stat_def os_Rename_def world_norename_def world0_def)

theorem rotation_renames_witness:
  "createLogFile ''/var/log/app.log'' True world0 =
     (Inr (FileHandle 0),
      world0\<lparr>fs := (fs world0)(''/var/log/app.log.20261101123045'' \<mapsto> Reg ''old'',
                                ''/var/log/app.log'' \<mapsto> Reg []),
             open_files := [''/var/log/app.log'']\<rparr>) \<and>
   length (Format_20060102150405 (now world0)) = 14 \<and>
   createLogFile ''/var/log/app.log'' True world_norename =
     (Inl (LinkError ''rename'' ''/var/log/app.log'' ''/var/log/app.log.20261101123045''
        EACCES), world_norename)"
proof -
  have n0: "now world0 = noon" "fs world0 ''/var/log/app.log.20261101123045'' = None"
    by (simp_all add: world0_def)
  have t: "year noon < 10000 \<and> month noon \<le> 12 \<and> day noon \<le> 31 \<and>
     hour noon < 24 \<and> minute noon < 60 \<and> second noon < 60"
    by (simp add: noon_def)
  from rotation_renames [OF example_stat(1), where e = "errorString []" and w' = world0
      and lib = ascii_lib and item = "file_item True" and items = "[]"
      and l = "\<lparr>loggers = []\<rparr>" and ?w0.0 = world0]
  have "createLogFile ''/var/log/app.log'' True world0 =
     (Inr (FileHandle 0),
      world0\<lparr>fs := (fs world0)(''/var/log/app.log.20261101123045'' \<mapsto> Reg ''old'',
                                ''/var/log/app.log'' \<mapsto> Reg []),
             open_files := [''/var/log/app.log'']\<rparr>) \<and>
   length (Format_20060102150405 (now world0)) = 14"
    using t by (simp add: example_stat n0 example_stamp)
  moreover
  from rotation_renames [OF example_norename(1),
      where e = "LinkError ''rename'' ''/var/log/app.log'' ''/var/log/app.log.20261101123045''
        EACCES" and w' = world_norename
      and lib = ascii_lib and item = "file_item True" and items = "[]"
      and l = "\<lparr>loggers = []\<rparr>" and ?w0.0 = world0]
  have "createLogFile ''/var/log/app.log'' True world_norename =
     (Inl (LinkError ''rename'' ''/var/log/app.log'' ''/var/log/app.log.20261101123045''
        EACCES), world_norename)"
    by (simp add: example_norename example_stamp)
  ultimately show ?thesis by simp
qed

end
